theory Spec2Isabelle
  imports Main "HOL-Library.Sublist"
begin

section \<open>The session/profile provider of src/context/AuthProvider.tsx\<close>

text \<open>
  The provider holds five pieces of component state (\<open>useState\<close>) and two asynchronous
  operations, \<open>getProfile\<close> and \<open>signOut\<close>, plus the handler registered with
  \<open>supabase.auth.onAuthStateChange\<close>. Every call of a state setter, of the backend, of
  the local storage, of the router and of \<open>Alert.alert\<close> is an effect; an operation is
  modelled as the list of effects it performs, in program order, cut into the
  synchronous segments between its \<open>await\<close>s. The \<open>console.log\<close> calls are diagnostics
  with no influence on control flow and are left out.
\<close>

subsection \<open>Data\<close>

text \<open>
  \<open>Session\<close> and \<open>User\<close> are the SDK's types. The source reads only
  \<open>session.user.id\<close>, always through optional chaining (\<open>userSession?.user?.id\<close>,
  \<open>newSession?.user\<close>), so \<open>user\<close> is kept optional here; \<open>access_token\<close>
  stands for the rest of the opaque token bundle. The field \<open>id\<close> is named
  \<open>uid\<close> because \<open>id\<close> is the identity function of HOL.
\<close>

record User =
  uid :: string

record Session =
  access_token :: string
  user :: "User option"

text \<open>The row selected from \<open>profiles\<close>: \<open>data.username\<close>, \<open>data.website\<close>, \<open>data.avatar_url\<close>.\<close>

record profile_row =
  data_username :: string
  data_website :: string
  data_avatar_url :: string

text \<open>
  A value that reaches a \<open>catch (error)\<close> clause. The source distinguishes only
  \<open>error instanceof Error\<close> (then it reads \<open>error.message\<close>) from everything else.
  The string of \<open>NonError\<close> is the \<open>message\<close> property of a plain object, which the
  source never reads.
\<close>

datatype js_value = ErrorInstance string | NonError string

text \<open>An awaited promise either resolves with a value or rejects with a thrown value.\<close>

datatype 'a awaited = Resolved 'a | Rejected js_value

text \<open>
  The result \<open>{ data, error, status }\<close> of
  \<open>supabase.from('profiles').select(...).eq('id', id).single()\<close>. Whether the SDK's
  error object passes \<open>instanceof Error\<close> is not fixed by the repository, so \<open>error\<close>
  may be either kind of value.
\<close>

record single_response =
  data :: "profile_row option"
  error :: "js_value option"
  status :: int

text \<open>
  The \<open>error\<close> of \<open>supabase.auth.signOut()\<close> has the SDK type \<open>AuthError | null\<close>;
  \<open>AuthError\<close> is a subclass of \<open>Error\<close>, so throwing it yields an \<open>ErrorInstance\<close>
  with its message.
\<close>

datatype AuthError = AuthError string

fun throw_AuthError :: "AuthError \<Rightarrow> js_value" where
  "throw_AuthError (AuthError m) = ErrorInstance m"

text \<open>The calls of the router that the source makes or mentions.\<close>

datatype router_call =
    Navigate string "(string \<times> string) list"
  | Replace string
  | Back

datatype effect =
    SetSession "Session option"
  | SetIsLoading bool
  | SetUsername string
  | SetWebsite string
  | SetAvatarUrl string
  | ProfileQuery string
  | Alert string "string option"
  | Router router_call
  | GetAllKeys
  | MultiRemove "string list"
  | AuthSignOut

text \<open>The component state, with the initial values of the \<open>useState\<close> calls.\<close>

record provider =
  session :: "Session option"
  isLoading :: bool
  username :: string
  website :: string
  avatarUrl :: string

definition initial_provider :: provider where
  "initial_provider =
     \<lparr>session = None, isLoading = True, username = '''', website = '''', avatarUrl = ''''\<rparr>"

fun apply_effect :: "effect \<Rightarrow> provider \<Rightarrow> provider" where
  "apply_effect (SetSession s) p = p\<lparr>session := s\<rparr>"
| "apply_effect (SetIsLoading b) p = p\<lparr>isLoading := b\<rparr>"
| "apply_effect (SetUsername v) p = p\<lparr>username := v\<rparr>"
| "apply_effect (SetWebsite v) p = p\<lparr>website := v\<rparr>"
| "apply_effect (SetAvatarUrl v) p = p\<lparr>avatarUrl := v\<rparr>"
| "apply_effect _ p = p"

definition run :: "effect list \<Rightarrow> provider \<Rightarrow> provider" where
  "run es p = fold apply_effect es p"

text \<open>What an observer of the collaborators sees of a list of effects.\<close>

fun alerts :: "effect list \<Rightarrow> (string \<times> string option) list" where
  "alerts [] = []"
| "alerts (Alert t m # es) = (t, m) # alerts es"
| "alerts (_ # es) = alerts es"

fun router_calls :: "effect list \<Rightarrow> router_call list" where
  "router_calls [] = []"
| "router_calls (Router c # es) = c # router_calls es"
| "router_calls (_ # es) = router_calls es"

fun profile_queries :: "effect list \<Rightarrow> string list" where
  "profile_queries [] = []"
| "profile_queries (ProfileQuery u # es) = u # profile_queries es"
| "profile_queries (_ # es) = profile_queries es"

fun loading_writes :: "effect list \<Rightarrow> bool list" where
  "loading_writes [] = []"
| "loading_writes (SetIsLoading b # es) = b # loading_writes es"
| "loading_writes (_ # es) = loading_writes es"

subsection \<open>getProfile\<close>

text \<open>
  \<open>userSession?.user?.id\<close> as the source tests it: absent when the session or the user
  is missing, and also when the id is the empty string, which is falsy.
\<close>

definition user_id_of :: "Session option \<Rightarrow> string option" where
  "user_id_of s =
     (case s of
        None \<Rightarrow> None
      | Some se \<Rightarrow>
          (case user se of
             None \<Rightarrow> None
           | Some u \<Rightarrow> if uid u = '''' then None else Some (uid u)))"

text \<open>\<open>currentSession || session\<close>: a session object is truthy, null and undefined are not.\<close>

definition effective_session :: "Session option \<Rightarrow> Session option \<Rightarrow> Session option" where
  "effective_session currentSession sess =
     (case currentSession of Some s \<Rightarrow> Some s | None \<Rightarrow> sess)"

text \<open>Lines 71 to 73, the \<open>finally\<close> clause.\<close>

definition getProfile_finally :: "effect list" where
  "getProfile_finally = [SetIsLoading False]"

text \<open>
  Lines 37 to 50, up to the \<open>await\<close>: the effects and the id of the query now in flight.
  With no user id the function returns, and the \<open>finally\<close> clause runs at once.
\<close>

definition getProfile_start :: "Session option \<Rightarrow> Session option \<Rightarrow> effect list \<times> string option" where
  "getProfile_start currentSession sess =
     (case user_id_of (effective_session currentSession sess) of
        None \<Rightarrow> (SetIsLoading True # getProfile_finally, None)
      | Some u \<Rightarrow> ([SetIsLoading True, ProfileQuery u], Some u))"

text \<open>Lines 56 to 65: the rest of the \<open>try\<close> block, with the value it throws, if any.\<close>

definition getProfile_try :: "single_response \<Rightarrow> effect list \<times> js_value option" where
  "getProfile_try r =
     (case error r of
        Some e \<Rightarrow>
          if status r \<noteq> 406 then ([], Some e)
          else (case data r of
                  Some d \<Rightarrow> ([SetUsername (data_username d), SetWebsite (data_website d),
                               SetAvatarUrl (data_avatar_url d)], None)
                | None \<Rightarrow> ([], None))
      | None \<Rightarrow>
          (case data r of
             Some d \<Rightarrow> ([SetUsername (data_username d), SetWebsite (data_website d),
                          SetAvatarUrl (data_avatar_url d)], None)
           | None \<Rightarrow> ([], None)))"

text \<open>Lines 66 to 70.\<close>

fun getProfile_catch :: "js_value \<Rightarrow> effect list" where
  "getProfile_catch (ErrorInstance m) = [Alert m None]"
| "getProfile_catch (NonError _) = []"

text \<open>The segment that runs when the query settles.\<close>

definition getProfile_resume :: "single_response awaited \<Rightarrow> effect list" where
  "getProfile_resume a =
     (case a of
        Rejected e \<Rightarrow> getProfile_catch e @ getProfile_finally
      | Resolved r \<Rightarrow>
          (case getProfile_try r of
             (es, None) \<Rightarrow> es @ getProfile_finally
           | (es, Some e) \<Rightarrow> es @ getProfile_catch e @ getProfile_finally))"

text \<open>
  The value that reaches the \<open>catch\<close> clause, if any: a rejection of the awaited query,
  or the \<open>error\<close> thrown at line 57.
\<close>

definition getProfile_caught :: "single_response awaited \<Rightarrow> js_value option" where
  "getProfile_caught a =
     (case a of Rejected e \<Rightarrow> Some e | Resolved r \<Rightarrow> snd (getProfile_try r))"

text \<open>
  The whole call: \<open>a\<close> is how the query settles, when one is issued.
\<close>

definition getProfile :: "Session option \<Rightarrow> Session option \<Rightarrow> single_response awaited \<Rightarrow> effect list" where
  "getProfile currentSession sess a =
     (case getProfile_start currentSession sess of
        (es, None) \<Rightarrow> es
      | (es, Some u) \<Rightarrow> es @ getProfile_resume a)"

subsection \<open>signOut\<close>

text \<open>
  \<open>key.startsWith('supabase.auth') || key.includes('session')\<close>, the filter of lines
  83 to 85.
\<close>

definition startsWith :: "string \<Rightarrow> string \<Rightarrow> bool" where
  "startsWith key p = prefix p key"

definition str_includes :: "string \<Rightarrow> string \<Rightarrow> bool" where
  "str_includes key p = sublist p key"

definition authKeys :: "string list \<Rightarrow> string list" where
  "authKeys keys =
     filter (\<lambda>key. startsWith key ''supabase.auth'' \<or> str_includes key ''session'') keys"

text \<open>Lines 79 to 82, up to the first \<open>await\<close>.\<close>

definition signOut_start :: "effect list" where
  "signOut_start = [SetIsLoading True, GetAllKeys]"

text \<open>
  Lines 92 to 107: the backend call, the \<open>throw\<close> of its error, the state reset and the
  call of the router.
\<close>

definition signOut_backend :: "AuthError option awaited \<Rightarrow> effect list \<times> js_value option" where
  "signOut_backend b =
     (case b of
        Rejected e \<Rightarrow> ([AuthSignOut], Some e)
      | Resolved (Some err) \<Rightarrow> ([AuthSignOut], Some (throw_AuthError err))
      | Resolved None \<Rightarrow>
          ([AuthSignOut, SetSession None, SetUsername '''', SetWebsite '''', SetAvatarUrl '''',
            Router (Navigate ''/(auth)/sign-in'' [])], None))"

text \<open>
  Lines 82 to 107, from the answer of \<open>AsyncStorage.getAllKeys()\<close> on. The answer of
  \<open>multiRemove\<close> is awaited only when some key matched; the backend is called only
  when the storage calls did not throw.
\<close>

definition signOut_try ::
  "string list awaited \<Rightarrow> unit awaited \<Rightarrow> AuthError option awaited \<Rightarrow> effect list \<times> js_value option" where
  "signOut_try keysA removeA b =
     (case keysA of
        Rejected e \<Rightarrow> ([], Some e)
      | Resolved keys \<Rightarrow>
          if length (authKeys keys) > 0 then
            (case removeA of
               Rejected e \<Rightarrow> ([MultiRemove (authKeys keys)], Some e)
             | Resolved _ \<Rightarrow>
                 (case signOut_backend b of (es, t) \<Rightarrow> (MultiRemove (authKeys keys) # es, t)))
          else signOut_backend b)"

text \<open>The value that reaches the \<open>catch\<close> clause of \<open>signOut\<close>, if any.\<close>

definition signOut_caught ::
  "string list awaited \<Rightarrow> unit awaited \<Rightarrow> AuthError option awaited \<Rightarrow> js_value option" where
  "signOut_caught keysA removeA b = snd (signOut_try keysA removeA b)"

text \<open>Lines 113 to 118.\<close>

fun signOut_catch :: "js_value \<Rightarrow> effect list" where
  "signOut_catch (ErrorInstance m) = [Alert ''Sign Out Error'' (Some m)]"
| "signOut_catch (NonError _) = [Alert ''Sign Out Error'' (Some ''An unknown error occurred'')]"

text \<open>Lines 119 to 121.\<close>

definition signOut_finally :: "effect list" where
  "signOut_finally = [SetIsLoading False]"

text \<open>Everything after the first \<open>await\<close>, and the whole call.\<close>

definition signOut_rest ::
  "string list awaited \<Rightarrow> unit awaited \<Rightarrow> AuthError option awaited \<Rightarrow> effect list" where
  "signOut_rest keysA removeA b =
     (case signOut_try keysA removeA b of
        (es, None) \<Rightarrow> es @ signOut_finally
      | (es, Some e) \<Rightarrow> es @ signOut_catch e @ signOut_finally)"

definition signOut ::
  "string list awaited \<Rightarrow> unit awaited \<Rightarrow> AuthError option awaited \<Rightarrow> effect list" where
  "signOut keysA removeA b = signOut_start @ signOut_rest keysA removeA b"

subsection \<open>The mount effect and the session-changed handler\<close>

text \<open>
  The effect has no dependencies, so the handler and the \<open>then\<close> callback call the
  \<open>getProfile\<close> of the first render, whose \<open>session\<close> is the initial null. Both pass
  the session explicitly. \<open>newSession?.user\<close> is truthy when the session and its user
  are present.
\<close>

definition has_user :: "Session option \<Rightarrow> bool" where
  "has_user s = (case s of None \<Rightarrow> False | Some se \<Rightarrow> user se \<noteq> None)"

text \<open>Lines 128 to 130, the synchronous part of the effect.\<close>

definition mount_effect :: "effect list" where
  "mount_effect = [SetUsername '''', SetWebsite '''', SetAvatarUrl '''']"

text \<open>Lines 133 to 140, the callback of \<open>getSession()\<close>.\<close>

definition getSession_then :: "Session option \<Rightarrow> effect list \<times> string option" where
  "getSession_then initialSession =
     (if has_user initialSession then
        (case getProfile_start initialSession None of
           (es, q) \<Rightarrow> (SetSession initialSession # es @ [SetIsLoading False], q))
      else ([SetIsLoading False], None))"

text \<open>
  Lines 143 to 157: the effects of one run of the handler, and the id of the profile
  query it leaves in flight. The fetch is not awaited.
\<close>

definition onAuthStateChange_handler :: "Session option \<Rightarrow> effect list \<times> string option" where
  "onAuthStateChange_handler newSession =
     (let cleared = (if newSession = None
                     then [SetUsername '''', SetWebsite '''', SetAvatarUrl ''''] else [])
      in if has_user newSession then
           (case getProfile_start newSession None of
              (es, q) \<Rightarrow> (cleared @ SetSession newSession # es, q))
         else (cleared @ [SetSession newSession], None))"

subsection \<open>The provider as a transition system\<close>

text \<open>
  The operations overlap at their \<open>await\<close>s. A state of the system is the component
  state together with what is in flight: the ids of the profile queries not yet
  answered, the number of sign-out calls not yet finished, and whether
  \<open>getSession()\<close> is still pending. One step runs one synchronous segment to its end,
  since nothing else can run in between; \<open>fire\<close> gives the state at the end of the
  segment. Whether a consumer also sees the states between the setter calls of a segment
  depends on whether the renderer batches them, which the source does not fix; these
  states are \<open>states_during\<close>, below.
\<close>

record system =
  prov :: provider
  inflight :: "string list"
  signing_out :: nat
  session_pending :: bool

definition mounted :: system where
  "mounted = \<lparr>prov = run mount_effect initial_provider, inflight = [], signing_out = 0,
              session_pending = True\<rparr>"

datatype event =
    InitialSession "Session option"
  | SessionChanged "Session option"
  | RefreshProfile
  | ProfileSettled nat "single_response awaited"
  | SignOutCalled
  | SignOutSettled "string list awaited" "unit awaited" "AuthError option awaited"

fun in_flight :: "string option \<Rightarrow> string list" where
  "in_flight None = []"
| "in_flight (Some u) = [u]"

text \<open>
  \<open>refreshProfile\<close> is \<open>() => getProfile()\<close>: no argument, and the \<open>session\<close> of the
  render the consumer took it from, here the current one.
\<close>

fun fire :: "event \<Rightarrow> system \<Rightarrow> system option" where
  "fire (InitialSession s) st =
     (if session_pending st then
        (case getSession_then s of
           (es, q) \<Rightarrow> Some (st\<lparr>prov := run es (prov st), inflight := inflight st @ in_flight q,
                                session_pending := False\<rparr>))
      else None)"
| "fire (SessionChanged s) st =
     (case onAuthStateChange_handler s of
        (es, q) \<Rightarrow> Some (st\<lparr>prov := run es (prov st), inflight := inflight st @ in_flight q\<rparr>))"
| "fire RefreshProfile st =
     (case getProfile_start None (session (prov st)) of
        (es, q) \<Rightarrow> Some (st\<lparr>prov := run es (prov st), inflight := inflight st @ in_flight q\<rparr>))"
| "fire (ProfileSettled i a) st =
     (if i < length (inflight st) then
        Some (st\<lparr>prov := run (getProfile_resume a) (prov st),
                 inflight := take i (inflight st) @ drop (Suc i) (inflight st)\<rparr>)
      else None)"
| "fire SignOutCalled st =
     Some (st\<lparr>prov := run signOut_start (prov st), signing_out := Suc (signing_out st)\<rparr>)"
| "fire (SignOutSettled keysA removeA b) st =
     (if 0 < signing_out st then
        Some (st\<lparr>prov := run (signOut_rest keysA removeA b) (prov st),
                 signing_out := signing_out st - 1\<rparr>)
      else None)"

text \<open>
  The effects of the segment that an event starts, and the states the component goes
  through while they run, one after each effect, from the state before the segment to
  the state at its end.
\<close>

fun effects_of :: "event \<Rightarrow> system \<Rightarrow> effect list" where
  "effects_of (InitialSession s) st = fst (getSession_then s)"
| "effects_of (SessionChanged s) st = fst (onAuthStateChange_handler s)"
| "effects_of RefreshProfile st = fst (getProfile_start None (session (prov st)))"
| "effects_of (ProfileSettled i a) st = getProfile_resume a"
| "effects_of SignOutCalled st = signOut_start"
| "effects_of (SignOutSettled keysA removeA b) st = signOut_rest keysA removeA b"

fun states_during :: "effect list \<Rightarrow> provider \<Rightarrow> provider list" where
  "states_during [] p = [p]"
| "states_during (e # es) p = p # states_during es (apply_effect e p)"

text \<open>The sessions the backend hands out carry a user with an id.\<close>

fun session_of :: "event \<Rightarrow> Session option" where
  "session_of (InitialSession s) = s"
| "session_of (SessionChanged s) = s"
| "session_of _ = None"

definition wf_event :: "event \<Rightarrow> bool" where
  "wf_event ev = (session_of ev = None \<or> user_id_of (session_of ev) \<noteq> None)"

inductive reachable :: "system \<Rightarrow> bool" where
  reachable_mounted: "reachable mounted"
| reachable_fire: "reachable st \<Longrightarrow> wf_event ev \<Longrightarrow> fire ev st = Some st' \<Longrightarrow> reachable st'"

text \<open>A run of events from a state; \<open>None\<close> when one of them cannot happen there.\<close>

fun fire_all :: "event list \<Rightarrow> system \<Rightarrow> system option" where
  "fire_all [] st = Some st"
| "fire_all (ev # evs) st =
     (if wf_event ev then
        (case fire ev st of None \<Rightarrow> None | Some st' \<Rightarrow> fire_all evs st')
      else None)"

text \<open>
  A profile query is stale when it settles with a row that holds a non-empty value, so
  that \<open>getProfile\<close> writes it, while the provider holds no session with a user id. The
  second system is the first without such steps.
\<close>

fun nonempty_write :: "effect \<Rightarrow> bool" where
  "nonempty_write (SetUsername v) = (v \<noteq> '''')"
| "nonempty_write (SetWebsite v) = (v \<noteq> '''')"
| "nonempty_write (SetAvatarUrl v) = (v \<noteq> '''')"
| "nonempty_write _ = False"

fun stale :: "event \<Rightarrow> system \<Rightarrow> bool" where
  "stale (ProfileSettled i a) st =
     (list_ex nonempty_write (getProfile_resume a) \<and> user_id_of (session (prov st)) = None)"
| "stale _ st = False"

inductive reachable_fresh :: "system \<Rightarrow> bool" where
  fresh_mounted: "reachable_fresh mounted"
| fresh_fire: "reachable_fresh st \<Longrightarrow> wf_event ev \<Longrightarrow> \<not> stale ev st \<Longrightarrow> fire ev st = Some st'
               \<Longrightarrow> reachable_fresh st'"

text \<open>
  The segment of a sign-out that resets the state (lines 96 to 99): the one in which
  nothing was thrown.
\<close>

fun signOut_resets :: "event \<Rightarrow> bool" where
  "signOut_resets (SignOutSettled keysA removeA b) = (signOut_caught keysA removeA b = None)"
| "signOut_resets _ = False"

text \<open>
  Whether an effect writes the session; used to tell which segments leave it alone.
\<close>

fun session_write :: "effect \<Rightarrow> bool" where
  "session_write (SetSession s) = True"
| "session_write _ = False"

text \<open>The invariant of the data model: a profile only with a session that has a user id.\<close>

definition profile_inv :: "provider \<Rightarrow> bool" where
  "profile_inv p =
     (username p \<noteq> '''' \<or> website p \<noteq> '''' \<or> avatarUrl p \<noteq> '''' \<longrightarrow> user_id_of (session p) \<noteq> None)"

section \<open>Properties\<close>

subsection \<open>Running lists of effects\<close>

lemmas getProfile_defs = getProfile_def getProfile_start_def getProfile_resume_def
  getProfile_try_def getProfile_finally_def effective_session_def

lemmas signOut_defs = signOut_def signOut_start_def signOut_rest_def signOut_try_def
  signOut_backend_def signOut_finally_def

lemma run_Nil: "run [] p = p"
  by (simp add: run_def)

lemma run_Cons: "run (e # es) p = run es (apply_effect e p)"
  by (simp add: run_def)

lemma run_append: "run (xs @ ys) p = run ys (run xs p)"
  by (simp add: run_def)

lemma alerts_append: "alerts (xs @ ys) = alerts xs @ alerts ys"
  by (induction xs rule: alerts.induct) simp_all

lemma loading_writes_append: "loading_writes (xs @ ys) = loading_writes xs @ loading_writes ys"
  by (induction xs rule: loading_writes.induct) simp_all

lemma run_getProfile_start:
  "run (fst (getProfile_start c s)) p =
     p\<lparr>isLoading := (user_id_of (effective_session c s) \<noteq> None)\<rparr>"
  by (simp add: getProfile_start_def getProfile_finally_def run_def split: option.split)

lemma run_getProfile_catch: "run (getProfile_catch e) p = p"
  by (cases e) (simp_all add: run_def)

lemma run_signOut_catch: "run (signOut_catch e) p = p"
  by (cases e) (simp_all add: run_def)

lemma loading_writes_getProfile_catch: "loading_writes (getProfile_catch e) = []"
  by (cases e) simp_all

lemma session_getProfile_resume: "session (run (getProfile_resume a) p) = session p"
  by (cases a)
     (simp_all add: getProfile_resume_def getProfile_try_def getProfile_finally_def
        run_append run_Cons run_Nil run_getProfile_catch split: option.split)

lemma run_signOut_rest:
  "run (signOut_rest k r b) p = p\<lparr>isLoading := False\<rparr>
   \<or> run (signOut_rest k r b) p =
       p\<lparr>session := None, username := '''', website := '''', avatarUrl := '''', isLoading := False\<rparr>"
  by (simp add: signOut_rest_def signOut_try_def signOut_backend_def signOut_finally_def
        run_append run_Cons run_Nil run_signOut_catch
        split: awaited.split option.split prod.split)

subsection \<open>Runs of events\<close>

lemma fire_all_reachable: "reachable st \<Longrightarrow> fire_all evs st = Some st' \<Longrightarrow> reachable st'"
proof (induction evs arbitrary: st)
  case Nil
  then show ?case by simp
next
  case (Cons ev evs)
  from Cons.prems(2) have wf: "wf_event ev"
    by (simp split: if_splits)
  with Cons.prems(2) obtain st1 where st1: "fire ev st = Some st1" "fire_all evs st1 = Some st'"
    by (auto split: option.splits)
  from Cons.prems(1) wf st1(1) have "reachable st1"
    by (rule reachable_fire)
  with st1(2) show ?case
    by (rule Cons.IH [rotated])
qed

text \<open>\<open>fire\<close> ends in the last of the states that the segment goes through.\<close>

lemma states_during_not_Nil: "states_during es p \<noteq> []"
  by (cases es) simp_all

lemma last_states_during: "last (states_during es p) = run es p"
  by (induction es arbitrary: p) (simp_all add: run_Nil run_Cons states_during_not_Nil)

lemma prov_fire: "fire ev st = Some st' \<Longrightarrow> prov st' = run (effects_of ev st) (prov st)"
  by (cases ev) (auto split: if_splits prod.splits)

subsection \<open>Sign-out\<close>

text \<open>The filter of the storage keys keeps the keys of the auth subsystem.\<close>

lemma authKeys_example:
  "authKeys [''supabase.auth.token'', ''my-session-id'', ''theme''] =
     [''supabase.auth.token'', ''my-session-id'']"
  by code_simp

text \<open>
  C1. When the storage calls and the backend sign-out succeed, sign-out ends with the
  session null, the three profile fields empty and the loading flag false, shows no
  alert, and calls the router exactly once: \<open>router.navigate\<close> with the sign-in path and
  empty params. The call is \<open>navigate\<close>, not the \<open>replace\<close> that the comment above it
  announces.
\<close>

theorem signOut_success_navigates:
  "run (signOut (Resolved keys) (Resolved ()) (Resolved None)) p =
     p\<lparr>session := None, isLoading := False, username := '''', website := '''', avatarUrl := ''''\<rparr>
   \<and> alerts (signOut (Resolved keys) (Resolved ()) (Resolved None)) = []
   \<and> router_calls (signOut (Resolved keys) (Resolved ()) (Resolved None)) =
       [Navigate ''/(auth)/sign-in'' []]
   \<and> router_calls (signOut (Resolved keys) (Resolved ()) (Resolved None)) \<noteq>
       [Replace ''/(auth)/sign-in'']"
  by (simp add: signOut_defs run_def)

text \<open>
  C2. When the backend sign-out returns an error with message \<open>m\<close>, exactly one alert is
  shown, titled "Sign Out Error" and carrying \<open>m\<close>; the router is not called; the session
  and the profile fields keep their values; the loading flag ends false.
\<close>

theorem signOut_backend_error:
  "alerts (signOut (Resolved keys) (Resolved ()) (Resolved (Some (AuthError m)))) =
     [(''Sign Out Error'', Some m)]
   \<and> router_calls (signOut (Resolved keys) (Resolved ()) (Resolved (Some (AuthError m)))) = []
   \<and> run (signOut (Resolved keys) (Resolved ()) (Resolved (Some (AuthError m)))) p =
       p\<lparr>isLoading := False\<rparr>"
  by (simp add: signOut_defs run_def)

text \<open>A signed-in user with a loaded profile, one auth key in the storage.\<close>

theorem signOut_backend_error_witness:
  "alerts (signOut (Resolved [''supabase.auth.token'', ''theme'']) (Resolved ())
      (Resolved (Some (AuthError ''network down'')))) = [(''Sign Out Error'', Some ''network down'')]
   \<and> run (signOut (Resolved [''supabase.auth.token'', ''theme'']) (Resolved ())
      (Resolved (Some (AuthError ''network down''))))
      \<lparr>session = Some \<lparr>access_token = ''t1'', user = Some \<lparr>uid = ''A''\<rparr>\<rparr>, isLoading = False,
       username = ''a'', website = ''b'', avatarUrl = ''c''\<rparr> =
      \<lparr>session = Some \<lparr>access_token = ''t1'', user = Some \<lparr>uid = ''A''\<rparr>\<rparr>, isLoading = False,
       username = ''a'', website = ''b'', avatarUrl = ''c''\<rparr>"
  using signOut_backend_error
    [of "[''supabase.auth.token'', ''theme'']" "''network down''"
        "\<lparr>session = Some \<lparr>access_token = ''t1'', user = Some \<lparr>uid = ''A''\<rparr>\<rparr>, isLoading = False,
          username = ''a'', website = ''b'', avatarUrl = ''c''\<rparr>"]
  by simp

subsection \<open>The session-changed handler\<close>

text \<open>
  C4. A session-changed event that carries a session whose user id is \<open>U\<close> issues
  exactly one profile query, for \<open>U\<close>, and leaves it in flight; when that query resolves
  without error and with the row \<open>(a, b, c)\<close>, the fields become exactly \<open>a\<close>, \<open>b\<close> and
  \<open>c\<close>, whatever the state was when the answer arrived. The user id is read as the source
  reads it, \<open>userSession?.user?.id\<close>: an empty string is no user id.
\<close>

theorem session_changed_fetches_profile:
  assumes "user_id_of (Some s) = Some U"
  shows "profile_queries (fst (onAuthStateChange_handler (Some s))) = [U]
   \<and> snd (onAuthStateChange_handler (Some s)) = Some U
   \<and> run (getProfile_resume (Resolved \<lparr>data = Some \<lparr>data_username = a, data_website = b,
            data_avatar_url = c\<rparr>, error = None, status = n\<rparr>)) q =
       q\<lparr>username := a, website := b, avatarUrl := c, isLoading := False\<rparr>"
proof -
  from assms have "user s \<noteq> None"
    by (auto simp add: user_id_of_def split: option.splits)
  with assms show ?thesis
    by (simp add: onAuthStateChange_handler_def has_user_def getProfile_defs run_def)
qed

theorem session_changed_fetches_profile_witness:
  "user_id_of (Some \<lparr>access_token = ''t'', user = Some \<lparr>uid = ''U1''\<rparr>\<rparr>) = Some ''U1''
   \<and> profile_queries (fst (onAuthStateChange_handler
       (Some \<lparr>access_token = ''t'', user = Some \<lparr>uid = ''U1''\<rparr>\<rparr>))) = [''U1'']
   \<and> run (getProfile_resume (Resolved \<lparr>data = Some \<lparr>data_username = ''a'',
         data_website = ''b'', data_avatar_url = ''c''\<rparr>, error = None, status = 200\<rparr>))
         initial_provider =
       initial_provider\<lparr>username := ''a'', website := ''b'', avatarUrl := ''c'',
         isLoading := False\<rparr>"
proof -
  have h: "user_id_of (Some \<lparr>access_token = ''t'', user = Some \<lparr>uid = ''U1''\<rparr>\<rparr>) = Some ''U1''"
    by (simp add: user_id_of_def)
  show ?thesis
    using h session_changed_fetches_profile [OF h, of "''a''" "''b''" "''c''" 200 initial_provider]
    by simp
qed

text \<open>
  C5. A session-changed event with a null session clears username, website and avatarUrl
  whatever they were; every session-changed event stores its session as the current
  one, and the profile fetch it may start does not touch the session when it settles.
\<close>

theorem session_changed_stores:
  "session (run (fst (onAuthStateChange_handler newSession)) p) = newSession
   \<and> session (run (getProfile_resume a) (run (fst (onAuthStateChange_handler newSession)) p)) =
       newSession
   \<and> username (run (fst (onAuthStateChange_handler None)) p) = ''''
   \<and> website (run (fst (onAuthStateChange_handler None)) p) = ''''
   \<and> avatarUrl (run (fst (onAuthStateChange_handler None)) p) = ''''"
  by (simp add: session_getProfile_resume)
     (simp add: onAuthStateChange_handler_def has_user_def run_Cons run_Nil run_append
        run_getProfile_start case_prod_beta)

theorem session_changed_stores_witness:
  "session (run (fst (onAuthStateChange_handler None))
     \<lparr>session = Some \<lparr>access_token = ''t'', user = Some \<lparr>uid = ''A''\<rparr>\<rparr>, isLoading = False,
      username = ''a'', website = ''b'', avatarUrl = ''c''\<rparr>) = None
   \<and> username (run (fst (onAuthStateChange_handler None))
     \<lparr>session = Some \<lparr>access_token = ''t'', user = Some \<lparr>uid = ''A''\<rparr>\<rparr>, isLoading = False,
      username = ''a'', website = ''b'', avatarUrl = ''c''\<rparr>) = ''''
   \<and> website (run (fst (onAuthStateChange_handler None))
     \<lparr>session = Some \<lparr>access_token = ''t'', user = Some \<lparr>uid = ''A''\<rparr>\<rparr>, isLoading = False,
      username = ''a'', website = ''b'', avatarUrl = ''c''\<rparr>) = ''''
   \<and> avatarUrl (run (fst (onAuthStateChange_handler None))
     \<lparr>session = Some \<lparr>access_token = ''t'', user = Some \<lparr>uid = ''A''\<rparr>\<rparr>, isLoading = False,
      username = ''a'', website = ''b'', avatarUrl = ''c''\<rparr>) = ''''"
  using session_changed_stores
    [of None "\<lparr>session = Some \<lparr>access_token = ''t'', user = Some \<lparr>uid = ''A''\<rparr>\<rparr>,
       isLoading = False, username = ''a'', website = ''b'', avatarUrl = ''c''\<rparr>"]
  by simp

text \<open>
  C10. A session-changed event with a non-null session stores the new session and leaves
  username, website and avatarUrl as they were, without an alert: the state a consumer
  observes after the handler has run holds the previous values next to the new session.
  They stay until a profile query resolves with a row, which overwrites them.
\<close>

theorem session_changed_keeps_profile:
  "session (run (fst (onAuthStateChange_handler (Some s))) p) = Some s
   \<and> username (run (fst (onAuthStateChange_handler (Some s))) p) = username p
   \<and> website (run (fst (onAuthStateChange_handler (Some s))) p) = website p
   \<and> avatarUrl (run (fst (onAuthStateChange_handler (Some s))) p) = avatarUrl p
   \<and> alerts (fst (onAuthStateChange_handler (Some s))) = []
   \<and> (\<exists>st'. fire (SessionChanged (Some s)) st = Some st'
         \<and> session (prov st') = Some s
         \<and> username (prov st') = username (prov st)
         \<and> website (prov st') = website (prov st)
         \<and> avatarUrl (prov st') = avatarUrl (prov st))
   \<and> run (getProfile_resume (Resolved \<lparr>data = Some d, error = None, status = n\<rparr>)) q =
       q\<lparr>username := data_username d, website := data_website d,
         avatarUrl := data_avatar_url d, isLoading := False\<rparr>"
proof -
  have handler: "session (run (fst (onAuthStateChange_handler (Some s))) p') = Some s
   \<and> username (run (fst (onAuthStateChange_handler (Some s))) p') = username p'
   \<and> website (run (fst (onAuthStateChange_handler (Some s))) p') = website p'
   \<and> avatarUrl (run (fst (onAuthStateChange_handler (Some s))) p') = avatarUrl p'" for p'
    by (simp add: onAuthStateChange_handler_def has_user_def run_Cons run_Nil run_append
          run_getProfile_start case_prod_beta)
  have quiet: "alerts (fst (onAuthStateChange_handler (Some s))) = []"
    by (simp add: onAuthStateChange_handler_def has_user_def getProfile_start_def
          getProfile_finally_def split: option.split)
  have step: "fire (SessionChanged (Some s)) st =
      Some (st\<lparr>prov := run (fst (onAuthStateChange_handler (Some s))) (prov st),
               inflight := inflight st @ in_flight (snd (onAuthStateChange_handler (Some s)))\<rparr>)"
    by (simp add: case_prod_beta)
  have overwrite: "run (getProfile_resume (Resolved \<lparr>data = Some d, error = None, status = n\<rparr>)) q =
       q\<lparr>username := data_username d, website := data_website d,
         avatarUrl := data_avatar_url d, isLoading := False\<rparr>"
    by (simp add: getProfile_defs run_def)
  from handler [of p] handler [of "prov st"] quiet overwrite show ?thesis
    unfolding step by simp
qed

text \<open>A switch from user \<open>A\<close>, whose profile is loaded, to user \<open>B\<close>.\<close>

theorem session_changed_keeps_profile_witness:
  "session (run (fst (onAuthStateChange_handler
       (Some \<lparr>access_token = ''t2'', user = Some \<lparr>uid = ''B''\<rparr>\<rparr>)))
     \<lparr>session = Some \<lparr>access_token = ''t1'', user = Some \<lparr>uid = ''A''\<rparr>\<rparr>, isLoading = False,
      username = ''a'', website = ''b'', avatarUrl = ''c''\<rparr>) =
     Some \<lparr>access_token = ''t2'', user = Some \<lparr>uid = ''B''\<rparr>\<rparr>
   \<and> username (run (fst (onAuthStateChange_handler
       (Some \<lparr>access_token = ''t2'', user = Some \<lparr>uid = ''B''\<rparr>\<rparr>)))
     \<lparr>session = Some \<lparr>access_token = ''t1'', user = Some \<lparr>uid = ''A''\<rparr>\<rparr>, isLoading = False,
      username = ''a'', website = ''b'', avatarUrl = ''c''\<rparr>) = ''a''"
  using session_changed_keeps_profile
    [of "\<lparr>access_token = ''t2'', user = Some \<lparr>uid = ''B''\<rparr>\<rparr>"
        "\<lparr>session = Some \<lparr>access_token = ''t1'', user = Some \<lparr>uid = ''A''\<rparr>\<rparr>, isLoading = False,
          username = ''a'', website = ''b'', avatarUrl = ''c''\<rparr>"]
  by simp

subsection \<open>Fetching the profile\<close>

text \<open>
  C6. A fetch-profile call whose query returns the not-found status 406 and no data
  leaves username, website and avatarUrl (and the session) as they were and shows no
  alert, whatever the error object is and whichever session the call was made for.
\<close>

theorem getProfile_not_found:
  "alerts (getProfile cur sess (Resolved \<lparr>data = None, error = e, status = 406\<rparr>)) = []
   \<and> run (getProfile cur sess (Resolved \<lparr>data = None, error = e, status = 406\<rparr>)) p =
       p\<lparr>isLoading := False\<rparr>"
  by (cases e) (simp_all add: getProfile_defs run_def split: option.split)

theorem getProfile_not_found_witness:
  "alerts (getProfile (Some \<lparr>access_token = ''t'', user = Some \<lparr>uid = ''U1''\<rparr>\<rparr>) None
      (Resolved \<lparr>data = None, error = Some (NonError ''no rows''), status = 406\<rparr>)) = []
   \<and> run (getProfile (Some \<lparr>access_token = ''t'', user = Some \<lparr>uid = ''U1''\<rparr>\<rparr>) None
      (Resolved \<lparr>data = None, error = Some (NonError ''no rows''), status = 406\<rparr>))
      \<lparr>session = Some \<lparr>access_token = ''t'', user = Some \<lparr>uid = ''U1''\<rparr>\<rparr>, isLoading = False,
       username = ''a'', website = ''b'', avatarUrl = ''c''\<rparr> =
      \<lparr>session = Some \<lparr>access_token = ''t'', user = Some \<lparr>uid = ''U1''\<rparr>\<rparr>, isLoading = False,
       username = ''a'', website = ''b'', avatarUrl = ''c''\<rparr>"
  using getProfile_not_found
    [of "Some \<lparr>access_token = ''t'', user = Some \<lparr>uid = ''U1''\<rparr>\<rparr>" None
        "Some (NonError ''no rows'')"
        "\<lparr>session = Some \<lparr>access_token = ''t'', user = Some \<lparr>uid = ''U1''\<rparr>\<rparr>, isLoading = False,
          username = ''a'', website = ''b'', avatarUrl = ''c''\<rparr>"]
  by simp

text \<open>
  Whenever a value reaches the \<open>catch\<close> clause of fetch-profile, thrown by the awaited
  query or at line 57, the session and the profile fields are left as they were and the
  loading flag ends false.
\<close>

lemma getProfile_failure_keeps_fields:
  assumes "getProfile_caught a = Some e"
  shows "run (getProfile cur sess a) p = p\<lparr>isLoading := False\<rparr>"
proof -
  have "run (getProfile_resume a) p' = p'\<lparr>isLoading := False\<rparr>" for p'
    using assms
    by (cases a)
       (auto simp add: getProfile_caught_def getProfile_resume_def getProfile_try_def
          getProfile_finally_def run_append run_Cons run_Nil run_getProfile_catch
          split: option.splits if_splits)
  then show ?thesis
    by (simp add: getProfile_def getProfile_start_def getProfile_finally_def run_append
          run_Cons run_Nil split: option.split)
qed

text \<open>
  C7. A fetch-profile call whose query fails with an error other than not-found should
  show an alert with the error's message and leave the fields as they were. The code
  leaves the fields as they were, but shows the alert only for an instance of \<open>Error\<close>:
  here the query for user \<open>U1\<close> fails with status 500 and an error object with the
  message "boom" that is not an instance of \<open>Error\<close>, returned in the response or thrown
  by the awaited call. Line 57 throws it, the guard of line 67 fails, and no alert is
  shown. The same failure with an instance of \<open>Error\<close> is alerted, and the \<open>catch\<close> clause
  of sign-out alerts the value that is not one.
\<close>

theorem getProfile_query_error_unalerted:
  "alerts (getProfile (Some \<lparr>access_token = ''t'', user = Some \<lparr>uid = ''U1''\<rparr>\<rparr>) None
      (Resolved \<lparr>data = None, error = Some (NonError ''boom''), status = 500\<rparr>)) = []
   \<and> alerts (getProfile (Some \<lparr>access_token = ''t'', user = Some \<lparr>uid = ''U1''\<rparr>\<rparr>) None
      (Rejected (NonError ''boom''))) = []
   \<and> profile_queries (getProfile (Some \<lparr>access_token = ''t'', user = Some \<lparr>uid = ''U1''\<rparr>\<rparr>) None
      (Resolved \<lparr>data = None, error = Some (NonError ''boom''), status = 500\<rparr>)) = [''U1'']
   \<and> run (getProfile (Some \<lparr>access_token = ''t'', user = Some \<lparr>uid = ''U1''\<rparr>\<rparr>) None
      (Resolved \<lparr>data = None, error = Some (NonError ''boom''), status = 500\<rparr>))
      \<lparr>session = Some \<lparr>access_token = ''t'', user = Some \<lparr>uid = ''U1''\<rparr>\<rparr>, isLoading = False,
       username = ''a'', website = ''b'', avatarUrl = ''c''\<rparr> =
      \<lparr>session = Some \<lparr>access_token = ''t'', user = Some \<lparr>uid = ''U1''\<rparr>\<rparr>, isLoading = False,
       username = ''a'', website = ''b'', avatarUrl = ''c''\<rparr>
   \<and> alerts (getProfile (Some \<lparr>access_token = ''t'', user = Some \<lparr>uid = ''U1''\<rparr>\<rparr>) None
      (Resolved \<lparr>data = None, error = Some (ErrorInstance ''boom''), status = 500\<rparr>)) =
      [(''boom'', None)]
   \<and> alerts (signOut (Resolved []) (Resolved ()) (Rejected (NonError ''boom''))) =
      [(''Sign Out Error'', Some ''An unknown error occurred'')]"
  by (simp add: getProfile_defs user_id_of_def signOut_defs authKeys_def run_def)

text \<open>
  C8, as amended. When neither the argument nor the stored session has a user id,
  fetch-profile does nothing but write the loading flag, true and then false: it issues
  no query, shows no alert and changes no state field other than the loading flag. In
  every call, whatever the outcome, the call itself writes the loading flag exactly
  twice: true by its first effect, false by its last one, which is the \<open>finally\<close> clause;
  so the flag is false when the call is over.
\<close>

theorem getProfile_no_user_and_loading:
  "(user_id_of cur = None \<and> user_id_of sess = None \<longrightarrow>
      getProfile cur sess a = [SetIsLoading True, SetIsLoading False]
      \<and> profile_queries (getProfile cur sess a) = []
      \<and> alerts (getProfile cur sess a) = []
      \<and> run (getProfile cur sess a) p = p\<lparr>isLoading := False\<rparr>)
   \<and> loading_writes (getProfile cur sess a) = [True, False]
   \<and> hd (getProfile cur sess a) = SetIsLoading True
   \<and> (\<exists>es. getProfile cur sess a = es @ getProfile_finally)
   \<and> isLoading (run (getProfile cur sess a) q) = False"
proof -
  have none: "user_id_of (effective_session cur sess) = None"
    if "user_id_of cur = None" "user_id_of sess = None"
    using that by (cases cur) (simp_all add: effective_session_def)
  have writes: "loading_writes (getProfile_resume a) = [False]"
    by (cases a)
       (simp_all add: getProfile_resume_def getProfile_try_def getProfile_finally_def
          loading_writes_append loading_writes_getProfile_catch split: option.split)
  have ends: "\<exists>es. getProfile_resume a = es @ getProfile_finally"
    by (cases a) (simp_all add: getProfile_resume_def split: prod.split option.split)
  have loading: "isLoading (run (getProfile_resume a) q') = False" for q'
    by (cases a)
       (simp_all add: getProfile_resume_def getProfile_try_def getProfile_finally_def
          run_append run_Cons run_Nil run_getProfile_catch split: option.split)
  show ?thesis
  proof (cases "user_id_of (effective_session cur sess)")
    case None
    then show ?thesis
      by (simp add: getProfile_def getProfile_start_def getProfile_finally_def run_def)
  next
    case (Some u)
    with none have "\<not> (user_id_of cur = None \<and> user_id_of sess = None)"
      by auto
    moreover from ends obtain es where "getProfile_resume a = es @ getProfile_finally" ..
    then have "getProfile cur sess a = ([SetIsLoading True, ProfileQuery u] @ es) @ getProfile_finally"
      using Some by (simp add: getProfile_def getProfile_start_def)
    then have "\<exists>es. getProfile cur sess a = es @ getProfile_finally" ..
    ultimately show ?thesis
      using Some writes loading
      by (simp add: getProfile_def getProfile_start_def loading_writes_append run_Cons)
  qed
qed

theorem getProfile_no_user_and_loading_witness:
  "user_id_of None = None
   \<and> getProfile None None (Rejected (NonError ''x'')) = [SetIsLoading True, SetIsLoading False]
   \<and> profile_queries (getProfile None None (Rejected (NonError ''x''))) = []
   \<and> run (getProfile None None (Rejected (NonError ''x''))) initial_provider =
       initial_provider\<lparr>isLoading := False\<rparr>
   \<and> loading_writes (getProfile None None (Rejected (NonError ''x''))) = [True, False]"
  using getProfile_no_user_and_loading [of None None "Rejected (NonError ''x'')" initial_provider]
  by (simp add: user_id_of_def run_def)

text \<open>
  C8 as stated fails, twice. A call with no user id made while the loading flag is
  still true, as it is after mount, changes a state field: the flag ends false. And the
  flag does not stay true while a query is in flight: the callback of \<open>getSession()\<close>
  starts the fetch for user \<open>A\<close> and then resets the flag at line 139, which leaves the
  query in flight with the flag false.
\<close>

theorem getProfile_loading_counterexample:
  "run (getProfile None None (Rejected (NonError ''x'')))
     \<lparr>session = None, isLoading = True, username = '''', website = '''', avatarUrl = ''''\<rparr> \<noteq>
     \<lparr>session = None, isLoading = True, username = '''', website = '''', avatarUrl = ''''\<rparr>
   \<and> reachable
     \<lparr>prov = \<lparr>session = Some \<lparr>access_token = ''t'', user = Some \<lparr>uid = ''A''\<rparr>\<rparr>,
              isLoading = False, username = '''', website = '''', avatarUrl = ''''\<rparr>,
      inflight = [''A''], signing_out = 0, session_pending = False\<rparr>"
proof -
  have "fire_all [InitialSession (Some \<lparr>access_token = ''t'', user = Some \<lparr>uid = ''A''\<rparr>\<rparr>)] mounted =
      Some \<lparr>prov = \<lparr>session = Some \<lparr>access_token = ''t'', user = Some \<lparr>uid = ''A''\<rparr>\<rparr>,
              isLoading = False, username = '''', website = '''', avatarUrl = ''''\<rparr>,
            inflight = [''A''], signing_out = 0, session_pending = False\<rparr>"
    by (simp add: mounted_def mount_effect_def initial_provider_def getSession_then_def
          has_user_def getProfile_defs user_id_of_def run_def wf_event_def)
  with reachable_mounted have "reachable
     \<lparr>prov = \<lparr>session = Some \<lparr>access_token = ''t'', user = Some \<lparr>uid = ''A''\<rparr>\<rparr>,
              isLoading = False, username = '''', website = '''', avatarUrl = ''''\<rparr>,
      inflight = [''A''], signing_out = 0, session_pending = False\<rparr>"
    by (rule fire_all_reachable)
  then show ?thesis
    by (simp add: getProfile_defs user_id_of_def run_def)
qed

text \<open>
  C9. Fetch-profile shows an alert exactly when the value that reaches its \<open>catch\<close>
  clause is an instance of \<open>Error\<close>, and then with that value's message; a value that is
  not an instance of \<open>Error\<close>, thrown by the query or returned as its error, is swallowed
  without an alert. Sign-out, when such a value reaches its \<open>catch\<close> clause, shows one
  alert, "Sign Out Error" with the text "An unknown error occurred".
\<close>

theorem non_Error_values_caught:
  "alerts (getProfile_resume a) =
     (case getProfile_caught a of Some (ErrorInstance m) \<Rightarrow> [(m, None)] | _ \<Rightarrow> [])
   \<and> alerts (getProfile cur sess (Rejected (NonError x))) = []
   \<and> alerts (getProfile cur sess (Resolved \<lparr>data = d, error = Some (NonError x), status = n\<rparr>)) = []
   \<and> (signOut_caught k r b = Some (NonError x) \<longrightarrow>
        alerts (signOut k r b) = [(''Sign Out Error'', Some ''An unknown error occurred'')])
   \<and> alerts (signOut (Rejected (NonError x)) r b) =
        [(''Sign Out Error'', Some ''An unknown error occurred'')]"
proof -
  have 1: "alerts (getProfile_resume a) =
     (case getProfile_caught a of Some (ErrorInstance m) \<Rightarrow> [(m, None)] | _ \<Rightarrow> [])"
    by (cases a)
       (auto simp add: getProfile_resume_def getProfile_caught_def getProfile_try_def
          getProfile_finally_def alerts_append split: option.split js_value.split)
  have 2: "alerts (getProfile cur sess (Rejected (NonError x))) = []"
    by (simp add: getProfile_defs split: option.split)
  have 3: "alerts (getProfile cur sess
      (Resolved \<lparr>data = d, error = Some (NonError x), status = n\<rparr>)) = []"
    by (cases d) (simp_all add: getProfile_defs split: option.split)
  have pre: "alerts (fst (signOut_try k r b)) = []"
    by (simp add: signOut_try_def signOut_backend_def split: awaited.split option.split)
  have 4: "alerts (signOut k r b) = [(''Sign Out Error'', Some ''An unknown error occurred'')]"
    if "signOut_caught k r b = Some (NonError x)"
    using that pre
    by (cases "signOut_try k r b")
       (simp add: signOut_caught_def signOut_def signOut_start_def signOut_rest_def
          signOut_finally_def alerts_append)
  have 5: "alerts (signOut (Rejected (NonError x)) r b) =
      [(''Sign Out Error'', Some ''An unknown error occurred'')]"
    by (simp add: signOut_defs)
  from 1 2 3 4 5 show ?thesis by blast
qed

theorem non_Error_values_caught_witness:
  "signOut_caught (Resolved []) (Resolved ()) (Rejected (NonError ''x'')) = Some (NonError ''x'')
   \<and> alerts (signOut (Resolved []) (Resolved ()) (Rejected (NonError ''x''))) =
        [(''Sign Out Error'', Some ''An unknown error occurred'')]
   \<and> alerts (getProfile_resume (Rejected (ErrorInstance ''boom''))) = [(''boom'', None)]"
  using non_Error_values_caught
    [of "Rejected (ErrorInstance ''boom'')" None None "''x''" None 0
        "Resolved []" "Resolved ()" "Rejected (NonError ''x'')"]
  by (simp add: signOut_caught_def signOut_try_def signOut_backend_def authKeys_def
        getProfile_caught_def)

subsection \<open>The invariant of the data model\<close>

text \<open>
  Two ways in which every state that a segment goes through keeps the invariant: the
  session has a user id and the segment does not write the session, or the profile is
  empty and the segment writes no non-empty value.
\<close>

lemma session_apply_effect: "\<not> session_write e \<Longrightarrow> session (apply_effect e p) = session p"
  by (cases e) simp_all

lemma empty_apply_effect:
  "\<not> nonempty_write e \<Longrightarrow> username p = '''' \<Longrightarrow> website p = '''' \<Longrightarrow> avatarUrl p = ''''
   \<Longrightarrow> username (apply_effect e p) = '''' \<and> website (apply_effect e p) = ''''
       \<and> avatarUrl (apply_effect e p) = ''''"
  by (cases e) simp_all

lemma inv_during_session_kept:
  "user_id_of (session p) \<noteq> None \<Longrightarrow> \<not> list_ex session_write es
   \<Longrightarrow> q \<in> set (states_during es p) \<Longrightarrow> profile_inv q"
proof (induction es arbitrary: p)
  case Nil
  then show ?case by (simp add: profile_inv_def)
next
  case (Cons e es)
  from Cons.prems(2) have e: "\<not> session_write e" and es: "\<not> list_ex session_write es"
    by simp_all
  from Cons.prems(3) consider "q = p" | "q \<in> set (states_during es (apply_effect e p))"
    by auto
  then show ?case
  proof cases
    case 1
    with Cons.prems(1) show ?thesis by (simp add: profile_inv_def)
  next
    case 2
    from Cons.prems(1) e have "user_id_of (session (apply_effect e p)) \<noteq> None"
      by (simp add: session_apply_effect)
    from this es 2 show ?thesis by (rule Cons.IH)
  qed
qed

lemma inv_during_no_profile:
  "username p = '''' \<and> website p = '''' \<and> avatarUrl p = '''' \<Longrightarrow> \<not> list_ex nonempty_write es
   \<Longrightarrow> q \<in> set (states_during es p) \<Longrightarrow> profile_inv q"
proof (induction es arbitrary: p)
  case Nil
  then show ?case by (simp add: profile_inv_def)
next
  case (Cons e es)
  from Cons.prems(2) have e: "\<not> nonempty_write e" and es: "\<not> list_ex nonempty_write es"
    by simp_all
  from Cons.prems(3) consider "q = p" | "q \<in> set (states_during es (apply_effect e p))"
    by auto
  then show ?case
  proof cases
    case 1
    with Cons.prems(1) show ?thesis by (simp add: profile_inv_def)
  next
    case 2
    from Cons.prems(1) e have "username (apply_effect e p) = '''' \<and> website (apply_effect e p) = ''''
       \<and> avatarUrl (apply_effect e p) = ''''"
      by (simp add: empty_apply_effect)
    from this es 2 show ?thesis by (rule Cons.IH)
  qed
qed

lemma inv_during_quiet:
  assumes "profile_inv p" and "\<not> list_ex session_write es" and "\<not> list_ex nonempty_write es"
    and "q \<in> set (states_during es p)"
  shows "profile_inv q"
proof (cases "user_id_of (session p)")
  case None
  with assms(1) have "username p = '''' \<and> website p = '''' \<and> avatarUrl p = ''''"
    by (auto simp add: profile_inv_def)
  from this assms(3,4) show ?thesis by (rule inv_during_no_profile)
next
  case (Some u)
  then have "user_id_of (session p) \<noteq> None" by simp
  from this assms(2,4) show ?thesis by (rule inv_during_session_kept)
qed

text \<open>What the segments write.\<close>

lemma quiet_getProfile_start:
  "\<not> list_ex session_write (fst (getProfile_start c s))
   \<and> \<not> list_ex nonempty_write (fst (getProfile_start c s))"
  by (simp add: getProfile_start_def getProfile_finally_def split: option.split)

lemma quiet_getProfile_catch:
  "\<not> list_ex session_write (getProfile_catch e) \<and> \<not> list_ex nonempty_write (getProfile_catch e)"
  by (cases e) simp_all

lemma quiet_signOut_catch:
  "\<not> list_ex session_write (signOut_catch e) \<and> \<not> list_ex nonempty_write (signOut_catch e)"
  by (cases e) simp_all

lemma getProfile_resume_keeps_session: "\<not> list_ex session_write (getProfile_resume a)"
  by (cases a)
     (simp_all add: getProfile_resume_def getProfile_try_def getProfile_finally_def
        quiet_getProfile_catch split: option.split)

lemma quiet_signOut_thrown:
  assumes "signOut_caught k r b \<noteq> None"
  shows "\<not> list_ex session_write (signOut_rest k r b)
   \<and> \<not> list_ex nonempty_write (signOut_rest k r b)"
  using assms
  by (auto simp add: signOut_caught_def signOut_rest_def signOut_try_def signOut_backend_def
        signOut_finally_def quiet_signOut_catch split: awaited.splits option.splits if_splits)

lemma profile_inv_signOut_rest:
  assumes "profile_inv p"
  shows "profile_inv (run (signOut_rest k r b) p)"
  using run_signOut_rest [of k r b p] assms
  by (auto simp add: profile_inv_def user_id_of_def)

text \<open>
  Every state that a segment goes through keeps the invariant, unless the segment is
  stale or is the reset of a sign-out.
\<close>

lemma inv_during_event:
  assumes inv: "profile_inv (prov st)" and wf: "wf_event ev" and fresh: "\<not> stale ev st"
    and other: "\<not> signOut_resets ev"
    and q: "q \<in> set (states_during (effects_of ev st) (prov st))"
  shows "profile_inv q"
proof (cases ev)
  case (InitialSession s)
  show ?thesis
  proof (cases "has_user s")
    case True
    with wf InitialSession have id: "user_id_of s \<noteq> None"
      by (auto simp add: wf_event_def has_user_def)
    from q InitialSession True consider "q = prov st"
      | "q \<in> set (states_during (fst (getProfile_start s None) @ [SetIsLoading False])
              ((prov st)\<lparr>session := s\<rparr>))"
      by (auto simp add: getSession_then_def case_prod_beta)
    then show ?thesis
    proof cases
      case 1
      with inv show ?thesis by simp
    next
      case 2
      from id have "user_id_of (session ((prov st)\<lparr>session := s\<rparr>)) \<noteq> None"
        by simp
      moreover have "\<not> list_ex session_write (fst (getProfile_start s None) @ [SetIsLoading False])"
        by (simp add: quiet_getProfile_start)
      ultimately show ?thesis
        using 2 by (rule inv_during_session_kept)
    qed
  next
    case False
    with q InitialSession have during: "q \<in> set (states_during [SetIsLoading False] (prov st))"
      by (simp add: getSession_then_def)
    from inv _ _ during show ?thesis
      by (rule inv_during_quiet) simp_all
  qed
next
  case (SessionChanged s)
  show ?thesis
  proof (cases s)
    case None
    with q SessionChanged inv show ?thesis
      by (auto simp add: onAuthStateChange_handler_def has_user_def profile_inv_def
            user_id_of_def)
  next
    case (Some se)
    with wf SessionChanged have id: "user_id_of s \<noteq> None"
      by (simp add: wf_event_def)
    with Some have "has_user s"
      by (auto simp add: user_id_of_def has_user_def split: option.splits)
    with q SessionChanged Some consider "q = prov st"
      | "q \<in> set (states_during (fst (getProfile_start s None)) ((prov st)\<lparr>session := s\<rparr>))"
      by (auto simp add: onAuthStateChange_handler_def case_prod_beta)
    then show ?thesis
    proof cases
      case 1
      with inv show ?thesis by simp
    next
      case 2
      from id have "user_id_of (session ((prov st)\<lparr>session := s\<rparr>)) \<noteq> None"
        by simp
      moreover have "\<not> list_ex session_write (fst (getProfile_start s None))"
        by (simp add: quiet_getProfile_start)
      ultimately show ?thesis
        using 2 by (rule inv_during_session_kept)
    qed
  qed
next
  case RefreshProfile
  with q have during:
    "q \<in> set (states_during (fst (getProfile_start None (session (prov st)))) (prov st))"
    by simp
  from inv _ _ during show ?thesis
    by (rule inv_during_quiet) (simp_all add: quiet_getProfile_start)
next
  case (ProfileSettled i a)
  with q have during: "q \<in> set (states_during (getProfile_resume a) (prov st))"
    by simp
  show ?thesis
  proof (cases "user_id_of (session (prov st))")
    case None
    with fresh ProfileSettled have "\<not> list_ex nonempty_write (getProfile_resume a)"
      by simp
    with inv getProfile_resume_keeps_session show ?thesis
      using during by (rule inv_during_quiet)
  next
    case (Some u)
    then have "user_id_of (session (prov st)) \<noteq> None" by simp
    from this getProfile_resume_keeps_session during show ?thesis
      by (rule inv_during_session_kept)
  qed
next
  case SignOutCalled
  with q have during: "q \<in> set (states_during signOut_start (prov st))"
    by simp
  from inv _ _ during show ?thesis
    by (rule inv_during_quiet) (simp_all add: signOut_start_def)
next
  case (SignOutSettled k r b)
  with other have "signOut_caught k r b \<noteq> None"
    by simp
  then have "\<not> list_ex session_write (signOut_rest k r b)
      \<and> \<not> list_ex nonempty_write (signOut_rest k r b)"
    by (rule quiet_signOut_thrown)
  moreover from q SignOutSettled have "q \<in> set (states_during (signOut_rest k r b) (prov st))"
    by simp
  ultimately show ?thesis
    using inv by (auto intro: inv_during_quiet)
qed

lemma profile_inv_fire:
  assumes inv: "profile_inv (prov st)" and wf: "wf_event ev" and fresh: "\<not> stale ev st"
    and step: "fire ev st = Some st'"
  shows "profile_inv (prov st')"
proof (cases "signOut_resets ev")
  case True
  then obtain k r b where "ev = SignOutSettled k r b"
    by (cases ev) simp_all
  with prov_fire [OF step] have "prov st' = run (signOut_rest k r b) (prov st)"
    by simp
  with inv show ?thesis
    by (simp add: profile_inv_signOut_rest)
next
  case False
  have "last (states_during (effects_of ev st) (prov st))
      \<in> set (states_during (effects_of ev st) (prov st))"
    by (rule last_in_set) (rule states_during_not_Nil)
  with inv wf fresh False
  have "profile_inv (last (states_during (effects_of ev st) (prov st)))"
    by (rule inv_during_event)
  with step show ?thesis
    by (simp add: last_states_during prov_fire)
qed

text \<open>
  C3, as amended. Take a run in which every session that the backend hands out carries
  a user id and no profile query is stale (none settles with a non-empty row while there
  is no session with a user id). At the end of every segment of such a run the profile
  fields are non-empty only when a session with a user id is present, and they are all
  empty when the session is null. The same holds in every state between the setter
  calls of the next segment, whichever it is, except the reset of a sign-out: so a
  session-changed event with null never shows the old profile next to the null session,
  with or without batched rendering.
\<close>

theorem profile_inv_reachable_fresh:
  assumes "reachable_fresh st"
  shows "profile_inv (prov st)
   \<and> (session (prov st) = None \<longrightarrow>
        username (prov st) = '''' \<and> website (prov st) = '''' \<and> avatarUrl (prov st) = '''')
   \<and> (\<forall>ev. wf_event ev \<and> \<not> stale ev st \<and> \<not> signOut_resets ev \<longrightarrow>
        (\<forall>q \<in> set (states_during (effects_of ev st) (prov st)). profile_inv q))"
proof -
  from assms have inv: "profile_inv (prov st)"
  proof (induction rule: reachable_fresh.induct)
    case fresh_mounted
    show ?case
      by (simp add: mounted_def mount_effect_def initial_provider_def run_def profile_inv_def)
  next
    case (fresh_fire st ev st')
    then show ?case
      by (simp add: profile_inv_fire)
  qed
  then have "session (prov st) = None \<longrightarrow>
        username (prov st) = '''' \<and> website (prov st) = '''' \<and> avatarUrl (prov st) = ''''"
    by (auto simp add: profile_inv_def user_id_of_def)
  moreover from inv have "\<forall>ev. wf_event ev \<and> \<not> stale ev st \<and> \<not> signOut_resets ev \<longrightarrow>
        (\<forall>q \<in> set (states_during (effects_of ev st) (prov st)). profile_inv q)"
    by (blast intro: inv_during_event)
  ultimately show ?thesis
    using inv by blast
qed

text \<open>
  User \<open>A\<close> is signed in with a loaded profile, and the session is lost: after the first
  setter call of the handler the username is cleared and the session is still there.
\<close>

theorem profile_inv_reachable_fresh_witness:
  "reachable_fresh
     \<lparr>prov = \<lparr>session = Some \<lparr>access_token = ''t'', user = Some \<lparr>uid = ''A''\<rparr>\<rparr>,
              isLoading = False, username = ''a'', website = ''b'', avatarUrl = ''c''\<rparr>,
      inflight = [], signing_out = 0, session_pending = True\<rparr>
   \<and> profile_inv \<lparr>session = Some \<lparr>access_token = ''t'', user = Some \<lparr>uid = ''A''\<rparr>\<rparr>,
              isLoading = False, username = ''a'', website = ''b'', avatarUrl = ''c''\<rparr>
   \<and> wf_event (SessionChanged None)
   \<and> profile_inv \<lparr>session = Some \<lparr>access_token = ''t'', user = Some \<lparr>uid = ''A''\<rparr>\<rparr>,
              isLoading = False, username = '''', website = ''b'', avatarUrl = ''c''\<rparr>
   \<and> profile_inv \<lparr>session = None, isLoading = False, username = '''', website = '''',
              avatarUrl = ''''\<rparr>"
proof -
  let ?s = "Some \<lparr>access_token = ''t'', user = Some \<lparr>uid = ''A''\<rparr>\<rparr>"
  let ?r = "Resolved \<lparr>data = Some \<lparr>data_username = ''a'', data_website = ''b'',
      data_avatar_url = ''c''\<rparr>, error = None, status = 200\<rparr>"
  let ?st1 = "\<lparr>prov = \<lparr>session = ?s, isLoading = True, username = '''', website = '''',
      avatarUrl = ''''\<rparr>, inflight = [''A''], signing_out = 0, session_pending = True\<rparr>"
  let ?st2 = "\<lparr>prov = \<lparr>session = ?s, isLoading = False, username = ''a'', website = ''b'',
      avatarUrl = ''c''\<rparr>, inflight = [], signing_out = 0, session_pending = True\<rparr>"
  have 1: "fire (SessionChanged ?s) mounted = Some ?st1"
    by (simp add: mounted_def mount_effect_def initial_provider_def onAuthStateChange_handler_def
          has_user_def getProfile_defs user_id_of_def run_def)
  have 2: "fire (ProfileSettled 0 ?r) ?st1 = Some ?st2"
    by (simp add: getProfile_defs run_def)
  have "reachable_fresh ?st1"
    using fresh_mounted _ _ 1 by (rule fresh_fire) (simp_all add: wf_event_def user_id_of_def)
  then have fresh: "reachable_fresh ?st2"
    using _ _ 2 by (rule fresh_fire) (simp_all add: wf_event_def user_id_of_def)
  have wf: "wf_event (SessionChanged None)"
    by (simp add: wf_event_def)
  have during: "states_during (effects_of (SessionChanged None) ?st2) (prov ?st2) =
     [\<lparr>session = ?s, isLoading = False, username = ''a'', website = ''b'', avatarUrl = ''c''\<rparr>,
      \<lparr>session = ?s, isLoading = False, username = '''', website = ''b'', avatarUrl = ''c''\<rparr>,
      \<lparr>session = ?s, isLoading = False, username = '''', website = '''', avatarUrl = ''c''\<rparr>,
      \<lparr>session = ?s, isLoading = False, username = '''', website = '''', avatarUrl = ''''\<rparr>,
      \<lparr>session = None, isLoading = False, username = '''', website = '''', avatarUrl = ''''\<rparr>]"
    by (simp add: onAuthStateChange_handler_def has_user_def)
  note inv = profile_inv_reachable_fresh [OF fresh]
  from inv have here: "profile_inv (prov ?st2)"
    by (rule conjunct1)
  from inv have "wf_event (SessionChanged None) \<and> \<not> stale (SessionChanged None) ?st2
      \<and> \<not> signOut_resets (SessionChanged None) \<longrightarrow>
      (\<forall>q \<in> set (states_during (effects_of (SessionChanged None) ?st2) (prov ?st2)).
        profile_inv q)"
    by blast
  with wf have "\<forall>q \<in> set (states_during (effects_of (SessionChanged None) ?st2) (prov ?st2)).
        profile_inv q"
    by simp
  with fresh wf here show ?thesis
    unfolding during by simp
qed

text \<open>
  C3 as stated fails. User \<open>A\<close> signs in, which starts the profile query for \<open>A\<close>; the
  session is lost before the query is answered; then the answer arrives and its row is
  written. The state reached has a null session and a non-empty profile. Besides, the
  reset of a sign-out stores the null session first and clears the profile after it
  (lines 96 to 99): between these calls the old profile stands next to the null session,
  which a renderer that does not batch the calls shows.
\<close>

theorem profile_inv_counterexample:
  "reachable
     \<lparr>prov = \<lparr>session = None, isLoading = False, username = ''a'', website = ''b'',
              avatarUrl = ''c''\<rparr>,
      inflight = [], signing_out = 0, session_pending = True\<rparr>
   \<and> \<not> profile_inv \<lparr>session = None, isLoading = False, username = ''a'', website = ''b'',
              avatarUrl = ''c''\<rparr>
   \<and> \<lparr>session = None, isLoading = True, username = ''a'', website = ''b'', avatarUrl = ''c''\<rparr>
     \<in> set (states_during (signOut_rest (Resolved []) (Resolved ()) (Resolved None))
         \<lparr>session = Some \<lparr>access_token = ''t'', user = Some \<lparr>uid = ''A''\<rparr>\<rparr>, isLoading = True,
          username = ''a'', website = ''b'', avatarUrl = ''c''\<rparr>)
   \<and> \<not> profile_inv \<lparr>session = None, isLoading = True, username = ''a'', website = ''b'',
              avatarUrl = ''c''\<rparr>"
proof -
  let ?s = "Some \<lparr>access_token = ''t'', user = Some \<lparr>uid = ''A''\<rparr>\<rparr>"
  let ?r = "Resolved \<lparr>data = Some \<lparr>data_username = ''a'', data_website = ''b'',
      data_avatar_url = ''c''\<rparr>, error = None, status = 200\<rparr>"
  have "fire_all [SessionChanged ?s, SessionChanged None, ProfileSettled 0 ?r] mounted =
      Some \<lparr>prov = \<lparr>session = None, isLoading = False, username = ''a'', website = ''b'',
              avatarUrl = ''c''\<rparr>,
            inflight = [], signing_out = 0, session_pending = True\<rparr>"
    by (simp add: mounted_def mount_effect_def initial_provider_def onAuthStateChange_handler_def
          has_user_def getProfile_defs user_id_of_def run_def wf_event_def)
  with reachable_mounted have "reachable
     \<lparr>prov = \<lparr>session = None, isLoading = False, username = ''a'', website = ''b'',
              avatarUrl = ''c''\<rparr>,
      inflight = [], signing_out = 0, session_pending = True\<rparr>"
    by (rule fire_all_reachable)
  moreover have "\<lparr>session = None, isLoading = True, username = ''a'', website = ''b'',
      avatarUrl = ''c''\<rparr>
     \<in> set (states_during (signOut_rest (Resolved []) (Resolved ()) (Resolved None))
         \<lparr>session = ?s, isLoading = True, username = ''a'', website = ''b'', avatarUrl = ''c''\<rparr>)"
    by (simp add: signOut_rest_def signOut_try_def signOut_backend_def signOut_finally_def
          authKeys_def)
  ultimately show ?thesis
    by (simp add: profile_inv_def user_id_of_def)
qed

end
